theory Spec2Isabelle
  imports Main "HOL-Library.Word"
begin

unbundle bit_operations_syntax

section \<open>Machine model\<close>

type_synonym byte = "8 word"
type_synonym u32 = "32 word"
type_synonym u64 = "64 word"
type_synonym addr = "64 word"

text \<open>
  Memory is a partial map from addresses to bytes: an address outside the domain is not
  mapped, and an access to it faults.
\<close>

type_synonym memory = "addr \<Rightarrow> byte option"

text \<open>
  How a call of a C function ends: it returns a value to its caller, it ends the process
  through \<open>exit\<close> (with the exit status and the lines printed before), or the process is
  killed by a memory fault.
\<close>

datatype 'a outcome = Returned 'a | Exited int "string list" | Faulted

text \<open>The object representation of a pointer (LP64, little-endian): its eight bytes.\<close>

definition pointer_rep :: "addr \<Rightarrow> byte list" where
  "pointer_rep p = map (\<lambda>i. ucast (drop_bit (8 * i) p)) [0..<8]"

text \<open>Writing bytes to consecutive addresses; \<open>None\<close> when one of them is not mapped.\<close>

fun store_bytes :: "memory \<Rightarrow> addr \<Rightarrow> byte list \<Rightarrow> memory option" where
  "store_bytes mem a [] = Some mem"
| "store_bytes mem a (b # bs) =
     (case mem a of
        None \<Rightarrow> None
      | Some _ \<Rightarrow> store_bytes (mem(a \<mapsto> b)) (a + 1) bs)"

text \<open>
  \<open>memcpy (dst, src, n)\<close> where the source is an object whose bytes are \<open>src\<close>:
  the first \<open>n\<close> bytes of the object are written at \<open>dst\<close>.
\<close>

definition memcpy :: "memory \<Rightarrow> addr \<Rightarrow> byte list \<Rightarrow> nat \<Rightarrow> memory option" where
  "memcpy mem dst src n = store_bytes mem dst (take n src)"

text \<open>The 32-bit value of four bytes, the least significant first.\<close>

definition le32 :: "byte \<Rightarrow> byte \<Rightarrow> byte \<Rightarrow> byte \<Rightarrow> u32" where
  "le32 b0 b1 b2 b3 =
     ucast b0 OR push_bit 8 (ucast b1) OR push_bit 16 (ucast b2) OR push_bit 24 (ucast b3)"

text \<open>Reading a little-endian 32-bit value at an address; \<open>None\<close> when a byte is not mapped.\<close>

definition load_le32 :: "memory \<Rightarrow> addr \<Rightarrow> u32 option" where
  "load_le32 mem a =
     (case (mem a, mem (a + 1), mem (a + 2), mem (a + 3)) of
        (Some b0, Some b1, Some b2, Some b3) \<Rightarrow> Some (le32 b0 b1 b2 b3)
      | _ \<Rightarrow> None)"

section \<open>macho.c: \<open>macho_read_magic\<close>\<close>

definition error_message :: string where
  "error_message = ''[*] Error: Could not read magic from Mach-O.'' @ [CHR 0x0A]"

text \<open>
  Lines 28 to 33 of \<open>macho_read_magic\<close>, as a function of the value the local \<open>magic\<close>
  holds when the test is reached:
  \<^verbatim>\<open>if (!magic) { g_print ("[*] Error: ...\n"); exit (0); } return magic;\<close>
\<close>

definition macho_read_magic_check :: "u32 \<Rightarrow> u32 outcome" where
  "macho_read_magic_check magic =
     (if magic = 0 then Exited 0 [error_message] else Returned magic)"

text \<open>
  \<^verbatim>\<open>uint32_t macho_read_magic (unsigned char *buf, int offset)\<close>

  \<^verbatim>\<open>uint32_t magic = 0; memcpy (magic, &buf, sizeof(uint32_t));\<close>
  The destination of the copy is the value of \<open>magic\<close> converted to a pointer, that is
  address 0; the source is the address of the parameter \<open>buf\<close>, that is the pointer's own
  bytes. The local \<open>magic\<close> is not written. The parameter \<open>offset\<close> (a C \<open>int\<close>) is
  not used. \<open>mem\<close> is the memory of the process at the call.
\<close>

definition macho_read_magic :: "memory \<Rightarrow> addr \<Rightarrow> u32 \<Rightarrow> u32 outcome" where
  "macho_read_magic mem buf offset =
     (let magic = (0 :: u32) in
      case memcpy mem (ucast magic) (pointer_rep buf) 4 of
        None \<Rightarrow> Faulted
      | Some mem' \<Rightarrow> macho_read_magic_check magic)"

text \<open>
  What the function is meant to read, by its name and its error message: the little-endian
  32-bit value at \<open>buf + offset\<close> (the offset sign-extended, as pointer arithmetic on
  an \<open>int\<close> does).
\<close>

definition magic_at :: "memory \<Rightarrow> addr \<Rightarrow> u32 \<Rightarrow> u32 option" where
  "magic_at mem buf offset = load_le32 mem (buf + scast offset)"

text \<open>
  Two memories holding the bytes \<open>CF FA ED FE\<close> at address \<open>0x1000\<close>: a hosted one, where
  page zero is not mapped, and a flat one, where the addresses 0 to 3 are mapped too.
\<close>

definition hosted_mem :: memory where
  "hosted_mem = [0x1000 \<mapsto> 0xCF, 0x1001 \<mapsto> 0xFA, 0x1002 \<mapsto> 0xED, 0x1003 \<mapsto> 0xFE]"

definition flat_mem :: memory where
  "flat_mem = hosted_mem(0 \<mapsto> 0, 1 \<mapsto> 0, 2 \<mapsto> 0, 3 \<mapsto> 0)"

section \<open>Constants of macho-header.h and macho-command.h\<close>

text \<open>Capability bits of the CPU type (macho-header.h, lines 96 to 98).\<close>

definition CPU_ARCH_MASK :: u32 where "CPU_ARCH_MASK = 0xff000000"
definition CPU_ARCH_ABI64 :: u32 where "CPU_ARCH_ABI64 = 0x01000000"
definition CPU_ARCH_ABI64_32 :: u32 where "CPU_ARCH_ABI64_32 = 0x02000000"

text \<open>File types (macho-header.h, lines 121 to 128).\<close>

definition MACH_TYPE_UNKNOWN :: u32 where "MACH_TYPE_UNKNOWN = 0x0"
definition MACH_TYPE_OBJECT :: u32 where "MACH_TYPE_OBJECT = 0x1"
definition MACH_TYPE_EXECUTE :: u32 where "MACH_TYPE_EXECUTE = 0x2"
definition MACH_TYPE_DYLIB :: u32 where "MACH_TYPE_DYLIB = 0x6"
definition MACH_TYPE_KEXT_BUNDLE :: u32 where "MACH_TYPE_KEXT_BUNDLE = 0xb"

text \<open>Magic numbers (macho-header.h, lines 150 to 157).\<close>

definition MACH_MAGIC_64 :: u32 where "MACH_MAGIC_64 = 0xfeedfacf"
definition MACH_CIGAM_64 :: u32 where "MACH_CIGAM_64 = 0xcffaedfe"
definition MACH_MAGIC_32 :: u32 where "MACH_MAGIC_32 = 0xfeedface"
definition MACH_CIGAM_32 :: u32 where "MACH_CIGAM_32 = 0xcefaedfe"
definition MACH_MAGIC_UNIVERSAL :: u32 where "MACH_MAGIC_UNIVERSAL = 0xcafebabe"
definition MACH_CIGAM_UNIVERSAL :: u32 where "MACH_CIGAM_UNIVERSAL = 0xbebafeca"

text \<open>The enumerators of \<open>cpu_type_t\<close> (macho-header.h, lines 176 to 185).\<close>

definition CPU_TYPE_ANY :: u32 where "CPU_TYPE_ANY = 100"
definition CPU_TYPE_X86 :: u32 where "CPU_TYPE_X86 = 6"
definition CPU_TYPE_X86_64 :: u32 where "CPU_TYPE_X86_64 = 0x01000007"
definition CPU_TYPE_ARM :: u32 where "CPU_TYPE_ARM = 12"
definition CPU_TYPE_ARM64 :: u32 where "CPU_TYPE_ARM64 = (CPU_TYPE_ARM OR CPU_ARCH_ABI64)"
definition CPU_TYPE_ARM64_32 :: u32 where "CPU_TYPE_ARM64_32 = (CPU_TYPE_ARM OR CPU_ARCH_ABI64_32)"

text \<open>The enumerators of \<open>cpu_subtype_t\<close> (macho-header.h, lines 188 to 194).\<close>

definition CPU_SUBTYPE_ANY :: u32 where "CPU_SUBTYPE_ANY = 100"
definition CPU_SUBTYPE_ARM64_ALL :: u32 where "CPU_SUBTYPE_ARM64_ALL = 0"
definition CPU_SUBTYPE_ARM64_V8 :: u32 where "CPU_SUBTYPE_ARM64_V8 = 1"
definition CPU_SUBTYPE_ARM64E :: u32 where "CPU_SUBTYPE_ARM64E = 2"

text \<open>Platforms and build tools (macho-command.h, lines 267 to 281).\<close>

definition PLATFORM_MACOS :: u32 where "PLATFORM_MACOS = 1"
definition PLATFORM_IOS :: u32 where "PLATFORM_IOS = 2"
definition PLATFORM_TVOS :: u32 where "PLATFORM_TVOS = 3"
definition PLATFORM_WATCHOS :: u32 where "PLATFORM_WATCHOS = 4"
definition PLATFORM_BRIDGEOS :: u32 where "PLATFORM_BRIDGEOS = 5"
definition PLATFORM_MACCATALYST :: u32 where "PLATFORM_MACCATALYST = 6"
definition PLATFORM_IOSSIMULATOR :: u32 where "PLATFORM_IOSSIMULATOR = 7"
definition PLATFORM_TVOSSIMULATOR :: u32 where "PLATFORM_TVOSSIMULATOR = 8"
definition PLATFORM_WATCHOSSIMULATOR :: u32 where "PLATFORM_WATCHOSSIMULATOR = 9"
definition PLATFORM_DRIVERKIT :: u32 where "PLATFORM_DRIVERKIT = 10"

definition TOOL_CLANG :: u32 where "TOOL_CLANG = 1"
definition TOOL_SWIFT :: u32 where "TOOL_SWIFT = 2"
definition TOOL_LD :: u32 where "TOOL_LD = 3"

text \<open>The platforms in the order the header lists them.\<close>

definition platforms :: "u32 list" where
  "platforms =
     [PLATFORM_MACOS, PLATFORM_IOS, PLATFORM_TVOS, PLATFORM_WATCHOS, PLATFORM_BRIDGEOS,
      PLATFORM_MACCATALYST, PLATFORM_IOSSIMULATOR, PLATFORM_TVOSSIMULATOR,
      PLATFORM_WATCHOSSIMULATOR, PLATFORM_DRIVERKIT]"

section \<open>Data of macho-header.h and macho-command.h\<close>

text \<open>The header type flag \<open>mach_header_type_t\<close> (macho-header.h, lines 204 to 209).\<close>

datatype mach_header_type_t = MH_TYPE_UNKNOWN | MH_TYPE_MACHO64 | MH_TYPE_MACHO32 | MH_TYPE_FAT

fun mach_header_type_value :: "mach_header_type_t \<Rightarrow> int" where
  "mach_header_type_value MH_TYPE_UNKNOWN = -1"
| "mach_header_type_value MH_TYPE_MACHO64 = 1"
| "mach_header_type_value MH_TYPE_MACHO32 = 2"
| "mach_header_type_value MH_TYPE_FAT = 3"

text \<open>\<open>struct mach_header_64\<close> (macho-header.h, lines 220 to 229).\<close>

record mach_header_64 =
  magic :: u32
  cputype :: u32
  cpusubtype :: u32
  filetype :: u32
  ncmds :: u32
  sizeofcmds :: u32
  flags :: u32
  reserved :: u32

text \<open>\<open>mach_load_command_t\<close> (macho-command.h, lines 157 to 160).\<close>

record mach_load_command_t =
  cmd :: u32
  cmdsize :: u32

text \<open>
  \<open>mach_source_version_command_t\<close> (macho-command.h, lines 193 to 197): the two fields
  of a load command, then the version, \<open>A.B.C.D.E\<close> packed as \<open>a24.b10.c10.d10.e10\<close>.
\<close>

record mach_source_version_command_t = mach_load_command_t +
  version :: u64

text \<open>
  \<open>dylib_vers_t\<close> (macho-command.h, lines 475 to 479): the three parts of a version,
  the fields \<open>a\<close> (XXXX.00.00), \<open>b\<close> (0000.XX.00) and \<open>c\<close> (0000.00.XX).
\<close>

record dylib_vers_t =
  vers_a :: u32
  vers_b :: u32
  vers_c :: u32

section \<open>The parser of the specification\<close>

text \<open>
  The repository's sources hold the declarations of the parser (\<open>mach_header_verify\<close>,
  \<open>mach_header_load\<close>, \<open>mach_command_info_load\<close>,
  \<open>mach_lc_load_dylib_format_version\<close>, \<open>mach_lc_source_version_string\<close>) and not
  their bodies. The definitions of this section follow the specification.
\<close>

subsection \<open>Byte source and errors\<close>

text \<open>Modelled from the spec: the error kinds of section 7; no error type is in the sources.\<close>

datatype error =
  BadMagic | Truncated | MalformedLoadCommand | MalformedString | UnsupportedFormat
  | IoOutOfRange

text \<open>
  Modelled from the spec: the byte source of section 4.1, whose implementation (file.h) is
  missing. A file is a finite byte sequence; \<open>read_at\<close> gives \<open>len\<close> bytes at
  \<open>off\<close>, and a read past the end of the file fails with IoOutOfRange.
\<close>

definition read_at :: "byte list \<Rightarrow> nat \<Rightarrow> nat \<Rightarrow> error + byte list" where
  "read_at f off len =
     (if off + len \<le> length f then Inr (take len (drop off f)) else Inl IoOutOfRange)"

text \<open>
  Modelled from the spec: the byte order that the magic decides (section 4.2), and the
  multi-byte read that applies it; the swap primitives of the sources are missing. The
  32-bit value at index \<open>i\<close> of bytes that were read is taken in the given byte order.
  It is applied only where \<open>i + 4\<close> is within the bytes read.
\<close>

datatype endian = Little | Big

definition get_u32 :: "endian \<Rightarrow> byte list \<Rightarrow> nat \<Rightarrow> u32" where
  "get_u32 e bs i =
     (case e of
        Little \<Rightarrow> le32 (bs ! i) (bs ! (i + 1)) (bs ! (i + 2)) (bs ! (i + 3))
      | Big \<Rightarrow> le32 (bs ! (i + 3)) (bs ! (i + 2)) (bs ! (i + 1)) (bs ! i))"

subsection \<open>Magic dispatch and header decoder\<close>

text \<open>
  Modelled from the spec: the table of section 4.2, over the first four bytes; the body of
  \<open>mach_header_verify\<close> is missing. The kinds Thin64, Thin32, Fat and Unknown of the
  specification are the enumerators MH_TYPE_MACHO64, MH_TYPE_MACHO32, MH_TYPE_FAT and
  MH_TYPE_UNKNOWN of the header. The second component is the byte order of the payload.
\<close>

definition magic_dispatch :: "byte list \<Rightarrow> mach_header_type_t \<times> endian option" where
  "magic_dispatch bs =
     (if bs = [0xCF, 0xFA, 0xED, 0xFE] then (MH_TYPE_MACHO64, Some Little)
      else if bs = [0xFE, 0xED, 0xFA, 0xCF] then (MH_TYPE_MACHO64, Some Big)
      else if bs = [0xCE, 0xFA, 0xED, 0xFE] then (MH_TYPE_MACHO32, Some Little)
      else if bs = [0xFE, 0xED, 0xFA, 0xCE] then (MH_TYPE_MACHO32, Some Big)
      else if bs = [0xCA, 0xFE, 0xBA, 0xBE] then (MH_TYPE_FAT, Some Big)
      else if bs = [0xBE, 0xBA, 0xFE, 0xCA] then (MH_TYPE_FAT, Some Little)
      else (MH_TYPE_UNKNOWN, None))"

text \<open>The header kind of a file: the dispatch on its first four bytes.\<close>

definition header_kind :: "byte list \<Rightarrow> mach_header_type_t" where
  "header_kind f = fst (magic_dispatch (take 4 f))"

text \<open>The byte order of the payload of a file, for a recognized magic.\<close>

definition byte_order :: "byte list \<Rightarrow> endian option" where
  "byte_order f = snd (magic_dispatch (take 4 f))"

text \<open>
  Modelled from the spec: \<open>mach_header_verify\<close>, whose body is missing, as the dispatch
  of section 4.2 with the errors of sections 4.3 and 7: Truncated when the four bytes are
  not there, BadMagic when they are none of the recognized magics.
\<close>

definition mach_header_verify :: "byte list \<Rightarrow> nat \<Rightarrow> error + mach_header_type_t \<times> endian" where
  "mach_header_verify f base =
     (case read_at f base 4 of
        Inl err \<Rightarrow> Inl Truncated
      | Inr bs \<Rightarrow>
          (case magic_dispatch bs of
             (k, Some e) \<Rightarrow> Inr (k, e)
           | (k, None) \<Rightarrow> Inl BadMagic))"

text \<open>
  Modelled from the spec: what the header decoder of section 4.3 returns, a thin 64-bit
  header with the byte order of the file and the offset of the load-command stream, or the
  notice that the file is a fat container.
\<close>

datatype decoded_header = ThinHeader mach_header_64 endian nat | FatHeader endian

text \<open>
  Modelled from the spec: the header decoder of section 4.3 (\<open>mach_header_load\<close>, whose
  body is missing). The eight fields are read in the byte order of the magic; the stream
  begins at \<open>base + 32\<close>. A thin 32-bit file is UnsupportedFormat (section 7); a file
  shorter than the 32 bytes of the header is Truncated. The arch table of a fat file is
  outside this model.
\<close>

definition mach_header_load :: "byte list \<Rightarrow> nat \<Rightarrow> error + decoded_header" where
  "mach_header_load f base =
     (case mach_header_verify f base of
        Inl err \<Rightarrow> Inl err
      | Inr (MH_TYPE_UNKNOWN, e) \<Rightarrow> Inl BadMagic
      | Inr (MH_TYPE_MACHO32, e) \<Rightarrow> Inl UnsupportedFormat
      | Inr (MH_TYPE_FAT, e) \<Rightarrow> Inr (FatHeader e)
      | Inr (MH_TYPE_MACHO64, e) \<Rightarrow>
          (case read_at f base 32 of
             Inl err \<Rightarrow> Inl Truncated
           | Inr bs \<Rightarrow>
               Inr (ThinHeader
                 \<lparr>magic = get_u32 e bs 0, cputype = get_u32 e bs 4,
                  cpusubtype = get_u32 e bs 8, filetype = get_u32 e bs 12,
                  ncmds = get_u32 e bs 16, sizeofcmds = get_u32 e bs 20,
                  flags = get_u32 e bs 24, reserved = get_u32 e bs 28\<rparr> e (base + 32))))"

subsection \<open>Load-command walker\<close>

text \<open>
  Modelled from the spec: the command descriptor of section 3,
  \<open>{kind: u32, file_offset: u64, raw: bytes(cmdsize)}\<close>.
\<close>

record command =
  kind :: u32
  file_offset :: nat
  raw :: "byte list"

text \<open>
  Modelled from the spec: the first read of the walker's step (section 4.4), the eight
  bytes \<open>cmd\<close>, \<open>cmdsize\<close> of a load command at an offset.
\<close>

definition read_load_command :: "endian \<Rightarrow> byte list \<Rightarrow> nat \<Rightarrow> error + mach_load_command_t" where
  "read_load_command e f off =
     (case read_at f off 8 of
        Inl err \<Rightarrow> Inl err
      | Inr bs \<Rightarrow> Inr \<lparr>cmd = get_u32 e bs 0, cmdsize = get_u32 e bs 4\<rparr>)"

text \<open>
  Modelled from the spec: the walker of section 4.4 (\<open>mach_command_info_load\<close> and its
  loop, whose bodies are missing). \<open>walk e f lim n cursor\<close> reads \<open>n\<close> more commands
  from the running cursor, \<open>lim\<close> being \<open>base + sizeofcmds\<close>: read the eight bytes,
  require \<open>cmdsize \<ge> 8\<close>, \<open>cmdsize\<close> a multiple of 8 (the pointer width of a thin
  64-bit file: sections 3 and 7, and invariant 2 of section 8) and
  \<open>cursor + cmdsize \<le> lim\<close>, capture \<open>cmdsize\<close> bytes, advance; after the last
  command require \<open>cursor = lim\<close>. A violation is MalformedLoadCommand; a read that
  extends past the end of the file is Truncated (section 7, and scenario 6 of section 8).
\<close>

fun walk :: "endian \<Rightarrow> byte list \<Rightarrow> nat \<Rightarrow> nat \<Rightarrow> nat \<Rightarrow> error + command list" where
  "walk e f lim 0 cursor = (if cursor = lim then Inr [] else Inl MalformedLoadCommand)"
| "walk e f lim (Suc n) cursor =
     (case read_load_command e f cursor of
        Inl err \<Rightarrow> Inl Truncated
      | Inr lc \<Rightarrow>
          if unat (cmdsize lc) < 8 \<or> unat (cmdsize lc) mod 8 \<noteq> 0 \<or>
             lim < cursor + unat (cmdsize lc)
          then Inl MalformedLoadCommand
          else
            (case read_at f cursor (unat (cmdsize lc)) of
               Inl err \<Rightarrow> Inl Truncated
             | Inr bs \<Rightarrow>
                 (case walk e f lim n (cursor + unat (cmdsize lc)) of
                    Inl err \<Rightarrow> Inl err
                  | Inr ds \<Rightarrow> Inr (\<lparr>kind = cmd lc, file_offset = cursor, raw = bs\<rparr> # ds))))"

text \<open>
  Modelled from the spec: the contract of the walker (section 4.4) on its input
  \<open>(base_of_stream, sizeofcmds, ncmds)\<close>.
\<close>

definition load_commands :: "endian \<Rightarrow> byte list \<Rightarrow> nat \<Rightarrow> nat \<Rightarrow> nat \<Rightarrow> error + command list" where
  "load_commands e f base size_of_cmds n = walk e f (base + size_of_cmds) n base"

text \<open>
  A list of descriptors lies in the stream from a cursor: each one starts where the one
  before ends, its eight bytes give its kind and its size, the size is at least 8, a
  multiple of 8 and stays within the limit, and its bytes are the bytes of the file there.
\<close>

fun laid_out :: "endian \<Rightarrow> byte list \<Rightarrow> nat \<Rightarrow> nat \<Rightarrow> command list \<Rightarrow> bool" where
  "laid_out e f lim cursor [] = True"
| "laid_out e f lim cursor (d # ds) =
     (file_offset d = cursor \<and>
      read_load_command e f cursor = Inr \<lparr>cmd = kind d, cmdsize = of_nat (length (raw d))\<rparr> \<and>
      length (raw d) < 2 ^ 32 \<and>
      8 \<le> length (raw d) \<and> length (raw d) mod 8 = 0 \<and>
      cursor + length (raw d) \<le> lim \<and>
      read_at f cursor (length (raw d)) = Inr (raw d) \<and>
      laid_out e f lim (cursor + length (raw d)) ds)"

text \<open>The cursor after a list of descriptors.\<close>

definition stream_end :: "nat \<Rightarrow> command list \<Rightarrow> nat" where
  "stream_end cursor ds = cursor + sum_list (map (\<lambda>d. length (raw d)) ds)"

subsection \<open>Object model\<close>

text \<open>
  Modelled from the spec: the top-level object of section 3, as far as the header decoder
  and the walker fill it: the file, the header and the command descriptors. The segments,
  the symbols and the string blob are derived from the commands by the family decoders,
  which are outside this model.
\<close>

record macho =
  file_bytes :: "byte list"
  header :: mach_header_64
  commands :: "command list"

text \<open>What a parse gives: the object of a thin file, or the notice of a fat container.\<close>

datatype parsed = Object macho | Universal endian

text \<open>
  Modelled from the spec: \<open>parse\<close> of section 4.7 (the missing \<open>macho.c\<close> loader), the
  thin path of section 2: header decoder, then the walker over
  \<open>(base_of_stream, sizeofcmds, ncmds)\<close> of the header. A stream that ends past the end
  of the file is Truncated (section 8, scenario 6). Every error ends the parse: no object
  is returned with it.
\<close>

definition parse :: "byte list \<Rightarrow> error + parsed" where
  "parse f =
     (case mach_header_load f 0 of
        Inl err \<Rightarrow> Inl err
      | Inr (FatHeader e) \<Rightarrow> Inr (Universal e)
      | Inr (ThinHeader h e base) \<Rightarrow>
          if length f < base + unat (sizeofcmds h) then Inl Truncated
          else
            (case load_commands e f base (unat (sizeofcmds h)) (unat (ncmds h)) of
               Inl err \<Rightarrow> Inl err
             | Inr ds \<Rightarrow> Inr (Object \<lparr>file_bytes = f, header = h, commands = ds\<rparr>)))"


subsection \<open>Version decoder\<close>

text \<open>
  Modelled from the spec: the decimal notation in which the fields of a version are
  printed; the formatting code is missing.
\<close>

definition digit_char :: "nat \<Rightarrow> char" where
  "digit_char d = ''0123456789'' ! d"

fun dec :: "nat \<Rightarrow> string" where
  "dec n = (if n < 10 then [digit_char n] else dec (n div 10) @ [digit_char (n mod 10)])"

declare dec.simps [simp del]

text \<open>The number that a string of decimal digits denotes.\<close>

definition digit_value :: "char \<Rightarrow> nat" where
  "digit_value ch = of_char ch - 48"

definition decimal_value :: "string \<Rightarrow> nat" where
  "decimal_value s = foldl (\<lambda>acc ch. 10 * acc + digit_value ch) 0 s"

text \<open>
  Modelled from the spec: the shared version decoder of section 4.5, for a 32-bit version
  (\<open>mach_lc_load_dylib_format_version\<close>, whose body is missing): X is bits 31:16,
  Y is bits 15:8, Z is bits 7:0, held in a \<open>dylib_vers_t\<close> and printed as \<open>X.Y.Z\<close>.
\<close>

definition dylib_vers :: "u32 \<Rightarrow> dylib_vers_t" where
  "dylib_vers vers =
     \<lparr>vers_a = drop_bit 16 vers, vers_b = drop_bit 8 vers AND 0xff, vers_c = vers AND 0xff\<rparr>"

definition mach_lc_load_dylib_format_version :: "u32 \<Rightarrow> string" where
  "mach_lc_load_dylib_format_version vers =
     (let v = dylib_vers vers
      in dec (unat (vers_a v)) @ ''.'' @ dec (unat (vers_b v)) @ ''.'' @ dec (unat (vers_c v)))"

text \<open>
  Modelled from the spec: the shared version decoder of section 4.5, for the 64-bit source
  version (\<open>mach_lc_source_version_string\<close>, whose body is missing): five fields of
  24, 10, 10, 10 and 10 bits, the most significant first, printed as \<open>A.B.C.D.E\<close>.
\<close>

definition mach_lc_source_version_string :: "mach_source_version_command_t \<Rightarrow> string" where
  "mach_lc_source_version_string svc =
     (let v = version svc
      in dec (unat (drop_bit 40 v)) @ ''.'' @
         dec (unat (drop_bit 30 v AND 0x3ff)) @ ''.'' @
         dec (unat (drop_bit 20 v AND 0x3ff)) @ ''.'' @
         dec (unat (drop_bit 10 v AND 0x3ff)) @ ''.'' @
         dec (unat (v AND 0x3ff)))"

subsection \<open>Example files\<close>

text \<open>
  A source-version command of 16 bytes (\<open>cmd = 0x2A\<close>, \<open>cmdsize = 16\<close>), little-endian,
  and the same command cut after 12 bytes.
\<close>

definition version_command :: "byte list" where
  "version_command =
     [0x2A, 0, 0, 0,  0x10, 0, 0, 0,  0, 0, 0, 0,  0, 0, 0, 0]"



text \<open>
  A little-endian thin 64-bit executable for ARM64 with that one command:
  \<open>ncmds = 1\<close>, \<open>sizeofcmds = 16\<close>.
\<close>

definition minimal_macho :: "byte list" where
  "minimal_macho =
     [0xCF, 0xFA, 0xED, 0xFE,  0x0C, 0, 0, 0x01,  0, 0, 0, 0,  2, 0, 0, 0,
      1, 0, 0, 0,  0x10, 0, 0, 0,  0, 0, 0, 0,  0, 0, 0, 0] @ version_command"


definition minimal_object :: macho where
  "minimal_object =
     \<lparr>file_bytes = minimal_macho,
      header = \<lparr>magic = 0xFEEDFACF, cputype = 0x0100000C, cpusubtype = 0, filetype = 2,
                ncmds = 1, sizeofcmds = 16, flags = 0, reserved = 0\<rparr>,
      commands = [\<lparr>kind = 0x2A, file_offset = 32, raw = version_command\<rparr>]\<rparr>"

section \<open>Properties of \<open>macho_read_magic\<close>\<close>

lemma macho_read_magic_cases:
  "macho_read_magic mem buf offset = Faulted \<or>
   macho_read_magic mem buf offset = Exited 0 [error_message]"
  by (simp add: macho_read_magic_def macho_read_magic_check_def split: option.split)

lemma macho_read_magic_never_returns: "macho_read_magic mem buf offset \<noteq> Returned r"
  using macho_read_magic_cases [of mem buf offset] by auto

text \<open>A call reaches the test, and then exits, exactly when the copy to address 0 does not fault.\<close>

lemma macho_read_magic_exits_iff:
  "macho_read_magic mem buf offset = Exited 0 [error_message] \<longleftrightarrow>
   memcpy mem 0 (pointer_rep buf) 4 \<noteq> None"
  by (auto simp add: macho_read_magic_def macho_read_magic_check_def split: option.split)

text \<open>
  C1 (fails on the code). The claim: \<open>macho_read_magic (buf, o)\<close> returns the value of the
  four little-endian bytes of \<open>buf\<close> at offset \<open>o\<close>. On a buffer holding \<open>CF FA ED FE\<close>
  at offset 0 the value to read is \<open>0xFEEDFACF\<close>, and the function does not return it:
  the copy goes to address 0 and faults where page zero is not mapped, and where it is
  mapped the local is still zero and the process exits.
\<close>

theorem macho_read_magic_misses_magic:
  "magic_at hosted_mem 0x1000 0 = Some 0xFEEDFACF \<and>
   macho_read_magic hosted_mem 0x1000 0 = Faulted \<and>
   magic_at flat_mem 0x1000 0 = Some 0xFEEDFACF \<and>
   macho_read_magic flat_mem 0x1000 0 = Exited 0 [error_message]"
  by (simp add: magic_at_def load_le32_def le32_def macho_read_magic_def memcpy_def
      pointer_rep_def hosted_mem_def flat_mem_def macho_read_magic_check_def upt_rec)

text \<open>
  C2 (fails on the code as stated). The claim: a failure to read the magic is returned to
  the caller as an error result, and no operation terminates the process. On the flat
  memory the function finds no magic and ends the process with \<open>exit (0)\<close>.
\<close>

theorem read_failure_terminates_process:
  "macho_read_magic flat_mem 0x1000 0 = Exited 0 [error_message]"
  by (simp add: macho_read_magic_def memcpy_def pointer_rep_def hosted_mem_def flat_mem_def
      macho_read_magic_check_def upt_rec)

text \<open>
  C2 (amended). When the magic that \<open>macho_read_magic\<close> tests is zero, which is its failure
  to read the magic, the function prints its error message and ends the process with
  exit status 0: it does not recover and it returns nothing to its caller, neither a
  value nor an error result.
\<close>

theorem read_failure_exits:
  "m = 0 \<Longrightarrow>
   macho_read_magic_check m = Exited 0 [error_message] \<and>
   (\<forall>r. macho_read_magic_check m \<noteq> Returned r)"
  by (simp add: macho_read_magic_check_def)

theorem read_failure_exits_witness:
  "(0 :: u32) = 0 \<and> macho_read_magic_check 0 = Exited 0 [error_message] \<and>
   (\<forall>r. macho_read_magic_check 0 \<noteq> Returned r)"
  using read_failure_exits [of 0] by simp

text \<open>
  C9. The outcome of \<open>macho_read_magic\<close> is the same for any two offsets: the function
  does not use its offset argument.
\<close>

theorem macho_read_magic_ignores_offset:
  "macho_read_magic mem buf o1 = macho_read_magic mem buf o2"
  by (simp add: macho_read_magic_def)

text \<open>
  C10 (fails on the code). The claim: \<open>macho_read_magic\<close> takes the error branch, the
  message and then \<open>exit (0)\<close>, exactly when the magic it computed is zero. In a call on
  a buffer holding \<open>CF FA ED FE\<close>, in a memory where page zero is not mapped, the local
  \<open>magic\<close> is zero, and the test of lines 28 to 31 on a zero magic prints and exits; but
  the call does not reach the test: the copy to address 0 faults, and nothing is printed.
  Where the addresses 0 to 3 are mapped the same call does reach the branch.
\<close>

theorem macho_read_magic_faults_before_test:
  "macho_read_magic_check 0 = Exited 0 [error_message] \<and>
   macho_read_magic hosted_mem 0x1000 0 = Faulted \<and>
   macho_read_magic hosted_mem 0x1000 0 \<noteq> Exited 0 [error_message] \<and>
   macho_read_magic flat_mem 0x1000 0 = Exited 0 [error_message]"
  by (simp add: macho_read_magic_def memcpy_def pointer_rep_def hosted_mem_def flat_mem_def
      macho_read_magic_check_def upt_rec)

section \<open>Properties of the constants\<close>

text \<open>
  C8. The file types are OBJECT = 1, EXECUTE = 2, DYLIB = 6 and KEXT_BUNDLE = 0xB; the
  platforms are numbered 1 to 10, from MACOS to DRIVERKIT; the build tools are CLANG = 1,
  SWIFT = 2 and LD = 3; and the CPU type ARM64 is ARM with the 64-bit ABI bit, 0x0100000C.
\<close>

theorem recognized_constants:
  "MACH_TYPE_OBJECT = 1 \<and> MACH_TYPE_EXECUTE = 2 \<and> MACH_TYPE_DYLIB = 6 \<and>
   MACH_TYPE_KEXT_BUNDLE = 0xB \<and>
   platforms = map of_nat [1..<11] \<and> PLATFORM_MACOS = 1 \<and> PLATFORM_DRIVERKIT = 10 \<and>
   TOOL_CLANG = 1 \<and> TOOL_SWIFT = 2 \<and> TOOL_LD = 3 \<and>
   CPU_TYPE_ARM64 = (CPU_TYPE_ARM OR CPU_ARCH_ABI64) \<and> CPU_TYPE_ARM64 = 0x0100000C"
  by (simp add: MACH_TYPE_OBJECT_def MACH_TYPE_EXECUTE_def MACH_TYPE_DYLIB_def
      MACH_TYPE_KEXT_BUNDLE_def platforms_def PLATFORM_MACOS_def PLATFORM_IOS_def
      PLATFORM_TVOS_def PLATFORM_WATCHOS_def PLATFORM_BRIDGEOS_def PLATFORM_MACCATALYST_def
      PLATFORM_IOSSIMULATOR_def PLATFORM_TVOSSIMULATOR_def PLATFORM_WATCHOSSIMULATOR_def
      PLATFORM_DRIVERKIT_def TOOL_CLANG_def TOOL_SWIFT_def TOOL_LD_def CPU_TYPE_ARM64_def
      CPU_TYPE_ARM_def CPU_ARCH_ABI64_def upt_rec)

section \<open>Properties of the parser of the specification\<close>

subsection \<open>Reads\<close>

lemma read_at_length: "read_at f off len = Inr bs \<Longrightarrow> length bs = len"
  by (auto simp: read_at_def split: if_splits)

lemma read_at_Inr_bound: "read_at f off len = Inr bs \<Longrightarrow> off + len \<le> length f"
  by (auto simp: read_at_def split: if_splits)




lemma stream_end_Cons: "stream_end c (d # ds) = stream_end (c + length (raw d)) ds"
  by (simp add: stream_end_def)

subsection \<open>One step of the walker\<close>

text \<open>When the command at the cursor passes the checks, it is the head of every list of
  descriptors that lies in the stream from the cursor.\<close>

lemma laid_out_step:
  assumes "read_load_command e f c = Inr lc"
    and "\<not> unat (cmdsize lc) < 8" and "unat (cmdsize lc) mod 8 = 0"
    and "\<not> lim < c + unat (cmdsize lc)"
    and "read_at f c (unat (cmdsize lc)) = Inr bs"
  shows "laid_out e f lim c (d # ds) \<longleftrightarrow>
         d = \<lparr>kind = cmd lc, file_offset = c, raw = bs\<rparr> \<and>
         laid_out e f lim (c + unat (cmdsize lc)) ds"
proof -
  have len: "length bs = unat (cmdsize lc)"
    using assms(5) by (rule read_at_length)
  have small: "unat (cmdsize lc) < 2 ^ 32"
    using unsigned_less [of "cmdsize lc", where 'a = nat] by simp
  show ?thesis
  proof
    assume lo: "laid_out e f lim c (d # ds)"
    then have "lc = \<lparr>cmd = kind d, cmdsize = of_nat (length (raw d))\<rparr>"
      using assms(1) by simp
    then have k: "cmd lc = kind d" and s: "cmdsize lc = of_nat (length (raw d))"
      by simp_all
    from lo have "length (raw d) < 2 ^ 32" by simp
    then have "unat (cmdsize lc) = length (raw d)"
      using s by (simp add: unat_of_nat)
    with lo assms(5) k show "d = \<lparr>kind = cmd lc, file_offset = c, raw = bs\<rparr> \<and>
         laid_out e f lim (c + unat (cmdsize lc)) ds"
      by auto
  next
    assume "d = \<lparr>kind = cmd lc, file_offset = c, raw = bs\<rparr> \<and>
         laid_out e f lim (c + unat (cmdsize lc)) ds"
    then show "laid_out e f lim c (d # ds)"
      using assms len small by simp
  qed
qed






subsection \<open>The loop of the walker\<close>

lemma walk_Inr_iff:
  "walk e f lim n c = Inr ds \<longleftrightarrow>
   length ds = n \<and> laid_out e f lim c ds \<and> stream_end c ds = lim"
proof (induction n arbitrary: c ds)
  case 0
  then show ?case by (auto simp: stream_end_def)
next
  case (Suc n)
  show ?case
  proof (cases "read_load_command e f c")
    case (Inl err)
    then show ?thesis by (cases ds) auto
  next
    case (Inr lc)
    show ?thesis
    proof (cases "unat (cmdsize lc) < 8 \<or> unat (cmdsize lc) mod 8 \<noteq> 0 \<or>
        lim < c + unat (cmdsize lc)")
      case True
      then show ?thesis using Inr by (cases ds) (auto simp: unat_of_nat)
    next
      case False
      show ?thesis
      proof (cases "read_at f c (unat (cmdsize lc))")
        case (Inl err)
        then show ?thesis using Inr False by (cases ds) (auto simp: unat_of_nat)
      next
        case bs: (Inr bs)
        have step: "\<And>d ds'. laid_out e f lim c (d # ds') \<longleftrightarrow>
            d = \<lparr>kind = cmd lc, file_offset = c, raw = bs\<rparr> \<and>
            laid_out e f lim (c + unat (cmdsize lc)) ds'"
          using laid_out_step [OF Inr _ _ _ bs] False by blast
        have len: "length bs = unat (cmdsize lc)"
          using bs by (rule read_at_length)
        show ?thesis
        proof (cases ds)
          case Nil
          then show ?thesis using Inr False bs by (simp split: sum.splits)
        next
          case (Cons d ds')
          have "walk e f lim (Suc n) c = Inr (d # ds') \<longleftrightarrow>
                d = \<lparr>kind = cmd lc, file_offset = c, raw = bs\<rparr> \<and>
                walk e f lim n (c + unat (cmdsize lc)) = Inr ds'"
            using Inr False bs by (auto split: sum.splits)
          also have "\<dots> \<longleftrightarrow> d = \<lparr>kind = cmd lc, file_offset = c, raw = bs\<rparr> \<and>
                length ds' = n \<and> laid_out e f lim (c + unat (cmdsize lc)) ds' \<and>
                stream_end (c + unat (cmdsize lc)) ds' = lim"
            by (simp add: Suc.IH)
          also have "\<dots> \<longleftrightarrow> length (d # ds') = Suc n \<and> laid_out e f lim c (d # ds') \<and>
                stream_end c (d # ds') = lim"
            using len by (auto simp add: step stream_end_Cons simp del: laid_out.simps)
          finally show ?thesis using Cons by simp
        qed
      qed
    qed
  qed
qed





subsection \<open>The fields of a captured command\<close>

lemma get_u32_take:
  "i + 4 \<le> n \<Longrightarrow> get_u32 e (take n xs) i = get_u32 e xs i"
  by (cases e) (simp_all add: get_u32_def)

lemma read_load_command_fields:
  assumes "read_load_command e f c = Inr lc" and "read_at f c len = Inr bs" and "8 \<le> len"
  shows "cmd lc = get_u32 e bs 0 \<and> cmdsize lc = get_u32 e bs 4"
proof -
  from assms(1) have lc: "lc = \<lparr>cmd = get_u32 e (take 8 (drop c f)) 0,
      cmdsize = get_u32 e (take 8 (drop c f)) 4\<rparr>"
    by (auto simp: read_load_command_def read_at_def split: if_splits)
  from assms(2) have bs: "bs = take len (drop c f)"
    by (auto simp: read_at_def split: if_splits)
  show ?thesis
    using assms(3) by (simp add: lc bs get_u32_take)
qed

text \<open>The first eight bytes that a descriptor captured hold its kind and its size.\<close>

lemma laid_out_fields:
  "laid_out e f lim c ds \<Longrightarrow> d \<in> set ds \<Longrightarrow>
   kind d = get_u32 e (raw d) 0 \<and> unat (get_u32 e (raw d) 4) = length (raw d)"
proof (induction ds arbitrary: c)
  case Nil
  then show ?case by simp
next
  case (Cons x xs)
  show ?case
  proof (cases "d = x")
    case True
    from Cons.prems(1) have
      r: "read_load_command e f c = Inr \<lparr>cmd = kind x, cmdsize = of_nat (length (raw x))\<rparr>"
      and b: "read_at f c (length (raw x)) = Inr (raw x)"
      and l: "8 \<le> length (raw x)" and s: "length (raw x) < 2 ^ 32"
      by simp_all
    from read_load_command_fields [OF r b l] s show ?thesis
      using True by (auto simp: unat_of_nat dest: sym)
  next
    case False
    then have "d \<in> set xs" using Cons.prems(2) by simp
    moreover have "laid_out e f lim (c + length (raw x)) xs"
      using Cons.prems(1) by simp
    ultimately show ?thesis by (rule Cons.IH [rotated])
  qed
qed



lemma mach_header_load_Thin:
  "mach_header_load f 0 = Inr (ThinHeader h e base) \<Longrightarrow> byte_order f = Some e \<and> base = 32"
  by (auto simp: mach_header_load_def mach_header_verify_def read_at_def byte_order_def
      split: sum.splits if_splits prod.splits option.splits mach_header_type_t.splits)

subsection \<open>The magic\<close>

lemma le32_byte0: "ucast (le32 b0 b1 b2 b3) = b0"
  by (simp add: le32_def bit_eq_iff bit_simps)

lemma le32_byte1: "ucast (drop_bit 8 (le32 b0 b1 b2 b3)) = b1"
  by (auto simp add: le32_def bit_eq_iff bit_simps dest: bit_imp_le_length)

lemma le32_byte2: "ucast (drop_bit 16 (le32 b0 b1 b2 b3)) = b2"
  by (auto simp add: le32_def bit_eq_iff bit_simps dest: bit_imp_le_length)

lemma le32_byte3: "ucast (drop_bit 24 (le32 b0 b1 b2 b3)) = b3"
  by (auto simp add: le32_def bit_eq_iff bit_simps dest: bit_imp_le_length)

lemma le32_inject:
  "le32 b0 b1 b2 b3 = le32 c0 c1 c2 c3 \<longleftrightarrow> b0 = c0 \<and> b1 = c1 \<and> b2 = c2 \<and> b3 = c3"
  by (metis le32_byte0 le32_byte1 le32_byte2 le32_byte3)

lemma magic_bytes:
  "MACH_MAGIC_64 = le32 0xCF 0xFA 0xED 0xFE" "MACH_CIGAM_64 = le32 0xFE 0xED 0xFA 0xCF"
  "MACH_MAGIC_32 = le32 0xCE 0xFA 0xED 0xFE" "MACH_CIGAM_32 = le32 0xFE 0xED 0xFA 0xCE"
  "MACH_MAGIC_UNIVERSAL = le32 0xBE 0xBA 0xFE 0xCA"
  "MACH_CIGAM_UNIVERSAL = le32 0xCA 0xFE 0xBA 0xBE"
  by (simp_all add: le32_def MACH_MAGIC_64_def MACH_CIGAM_64_def MACH_MAGIC_32_def
      MACH_CIGAM_32_def MACH_MAGIC_UNIVERSAL_def MACH_CIGAM_UNIVERSAL_def)

lemma first_four:
  "4 \<le> length f \<Longrightarrow> \<exists>b0 b1 b2 b3 rest. f = b0 # b1 # b2 # b3 # rest"
  by (cases f; cases "tl f"; cases "tl (tl f)"; cases "tl (tl (tl f))") auto

subsection \<open>Claims on the parser\<close>

text \<open>
  C3. For every macho object that a successful parse produces, the \<open>cmdsize\<close> fields of
  the commands, read from the captured bytes in the byte order of the file, add up to
  \<open>header.sizeofcmds\<close>, each being the length of the bytes captured, and the number of
  command descriptors is \<open>header.ncmds\<close>.
\<close>

theorem parse_command_totals:
  assumes "parse f = Inr (Object m)"
  shows "\<exists>e. byte_order f = Some e \<and>
           (\<forall>d \<in> set (commands m). unat (get_u32 e (raw d) 4) = length (raw d)) \<and>
           sum_list (map (\<lambda>d. unat (get_u32 e (raw d) 4)) (commands m)) =
             unat (sizeofcmds (header m)) \<and>
           length (commands m) = unat (ncmds (header m))"
proof -
  from assms obtain h e base ds where
    hl: "mach_header_load f 0 = Inr (ThinHeader h e base)"
    and m: "m = \<lparr>file_bytes = f, header = h, commands = ds\<rparr>"
    and w: "load_commands e f base (unat (sizeofcmds h)) (unat (ncmds h)) = Inr ds"
    by (auto simp: parse_def split: sum.splits decoded_header.splits if_splits)
  from w have len: "length ds = unat (ncmds h)"
    and lo: "laid_out e f (base + unat (sizeofcmds h)) base ds"
    and se: "stream_end base ds = base + unat (sizeofcmds h)"
    by (simp_all add: load_commands_def walk_Inr_iff)
  have sz: "\<forall>d \<in> set ds. unat (get_u32 e (raw d) 4) = length (raw d)"
    using laid_out_fields [OF lo] by blast
  have eq: "sum_list (map (\<lambda>d. unat (get_u32 e (raw d) 4)) ds) =
      sum_list (map (\<lambda>d. length (raw d)) ds)"
    using sz by (intro arg_cong [where f = sum_list] map_cong) simp_all
  have "sum_list (map (\<lambda>d. length (raw d)) ds) = unat (sizeofcmds h)"
    using se by (simp add: stream_end_def)
  with eq have total: "sum_list (map (\<lambda>d. unat (get_u32 e (raw d) 4)) ds) =
      unat (sizeofcmds h)"
    by (simp only:)
  have "byte_order f = Some e"
    using mach_header_load_Thin [OF hl] by simp
  then show ?thesis using m len sz total by auto
qed

theorem parse_command_totals_witness:
  "parse minimal_macho = Inr (Object minimal_object) \<and>
   byte_order minimal_macho = Some Little \<and>
   sum_list (map (\<lambda>d. unat (get_u32 Little (raw d) 4)) (commands minimal_object)) = 16 \<and>
   unat (sizeofcmds (header minimal_object)) = 16 \<and>
   length (commands minimal_object) = 1 \<and> unat (ncmds (header minimal_object)) = 1"
proof -
  have p: "parse minimal_macho = Inr (Object minimal_object)"
    by (simp add: parse_def mach_header_load_def mach_header_verify_def read_at_def
        magic_dispatch_def get_u32_def le32_def load_commands_def read_load_command_def
        minimal_macho_def version_command_def minimal_object_def)
  have b: "byte_order minimal_macho = Some Little"
    by (simp add: byte_order_def magic_dispatch_def minimal_macho_def)
  show ?thesis
    using p b parse_command_totals [OF p]
    by (simp add: minimal_object_def version_command_def get_u32_def le32_def)
qed




text \<open>
  C5. The first four bytes of a file give exactly one header kind: thin 64-bit for
  \<open>CF FA ED FE\<close> and \<open>FE ED FA CF\<close>, thin 32-bit for \<open>CE FA ED FE\<close> and
  \<open>FE ED FA CE\<close>, fat for \<open>CA FE BA BE\<close> and \<open>BE BA FE CA\<close>, unknown for anything
  else; and a file whose four bytes are none of these fails with BadMagic. Read as a
  little-endian 32-bit value, the recognized bytes are the magic numbers of
  macho-header.h.
\<close>

theorem header_kind_of_magic:
  "(header_kind f = MH_TYPE_MACHO64 \<longleftrightarrow>
      take 4 f = [0xCF, 0xFA, 0xED, 0xFE] \<or> take 4 f = [0xFE, 0xED, 0xFA, 0xCF]) \<and>
   (header_kind f = MH_TYPE_MACHO32 \<longleftrightarrow>
      take 4 f = [0xCE, 0xFA, 0xED, 0xFE] \<or> take 4 f = [0xFE, 0xED, 0xFA, 0xCE]) \<and>
   (header_kind f = MH_TYPE_FAT \<longleftrightarrow>
      take 4 f = [0xCA, 0xFE, 0xBA, 0xBE] \<or> take 4 f = [0xBE, 0xBA, 0xFE, 0xCA]) \<and>
   (header_kind f = MH_TYPE_UNKNOWN \<longleftrightarrow>
      take 4 f \<notin> {[0xCF, 0xFA, 0xED, 0xFE], [0xFE, 0xED, 0xFA, 0xCF],
                    [0xCE, 0xFA, 0xED, 0xFE], [0xFE, 0xED, 0xFA, 0xCE],
                    [0xCA, 0xFE, 0xBA, 0xBE], [0xBE, 0xBA, 0xFE, 0xCA]}) \<and>
   (4 \<le> length f \<longrightarrow>
      (header_kind f = MH_TYPE_MACHO64 \<longleftrightarrow>
         get_u32 Little f 0 = MACH_MAGIC_64 \<or> get_u32 Little f 0 = MACH_CIGAM_64) \<and>
      (header_kind f = MH_TYPE_MACHO32 \<longleftrightarrow>
         get_u32 Little f 0 = MACH_MAGIC_32 \<or> get_u32 Little f 0 = MACH_CIGAM_32) \<and>
      (header_kind f = MH_TYPE_FAT \<longleftrightarrow>
         get_u32 Little f 0 = MACH_MAGIC_UNIVERSAL \<or>
         get_u32 Little f 0 = MACH_CIGAM_UNIVERSAL) \<and>
      (header_kind f = MH_TYPE_UNKNOWN \<longrightarrow>
         mach_header_verify f 0 = Inl BadMagic \<and> mach_header_load f 0 = Inl BadMagic \<and>
         parse f = Inl BadMagic))"
proof (intro conjI impI)
  assume len: "4 \<le> length f"
  then obtain b0 b1 b2 b3 rest where f: "f = b0 # b1 # b2 # b3 # rest"
    using first_four by blast
  have t: "take 4 f = [b0, b1, b2, b3]"
    by (simp add: f)
  have g: "get_u32 Little f 0 = le32 b0 b1 b2 b3"
    by (simp add: get_u32_def f)
  show "header_kind f = MH_TYPE_MACHO64 \<longleftrightarrow>
         get_u32 Little f 0 = MACH_MAGIC_64 \<or> get_u32 Little f 0 = MACH_CIGAM_64"
    unfolding g magic_bytes le32_inject by (simp add: header_kind_def magic_dispatch_def t)
  show "header_kind f = MH_TYPE_MACHO32 \<longleftrightarrow>
         get_u32 Little f 0 = MACH_MAGIC_32 \<or> get_u32 Little f 0 = MACH_CIGAM_32"
    unfolding g magic_bytes le32_inject by (simp add: header_kind_def magic_dispatch_def t)
  show "header_kind f = MH_TYPE_FAT \<longleftrightarrow>
         get_u32 Little f 0 = MACH_MAGIC_UNIVERSAL \<or>
         get_u32 Little f 0 = MACH_CIGAM_UNIVERSAL"
    unfolding g magic_bytes le32_inject
    by (auto simp add: header_kind_def magic_dispatch_def t)
  assume u: "header_kind f = MH_TYPE_UNKNOWN"
  have r: "read_at f 0 4 = Inr (take 4 f)"
    using len by (simp add: read_at_def)
  from u have d: "magic_dispatch (take 4 f) = (MH_TYPE_UNKNOWN, None)"
    by (auto simp: header_kind_def magic_dispatch_def split: if_splits)
  show v: "mach_header_verify f 0 = Inl BadMagic"
    by (simp add: mach_header_verify_def r d)
  show l: "mach_header_load f 0 = Inl BadMagic"
    by (simp add: mach_header_load_def v)
  show "parse f = Inl BadMagic"
    by (simp add: parse_def l)
qed (auto simp: header_kind_def magic_dispatch_def)

theorem header_kind_of_magic_witness:
  "4 \<le> length [0 :: byte, 1, 2, 3] \<and> header_kind [0, 1, 2, 3] = MH_TYPE_UNKNOWN \<and>
   parse [0, 1, 2, 3] = Inl BadMagic \<and>
   4 \<le> length minimal_macho \<and> header_kind minimal_macho = MH_TYPE_MACHO64 \<and>
   get_u32 Little minimal_macho 0 = MACH_MAGIC_64"
proof -
  have a: "4 \<le> length [0 :: byte, 1, 2, 3]" by simp
  have b: "header_kind [0, 1, 2, 3] = MH_TYPE_UNKNOWN"
    by (simp add: header_kind_def magic_dispatch_def)
  have c: "4 \<le> length minimal_macho" by (simp add: minimal_macho_def)
  have d: "header_kind minimal_macho = MH_TYPE_MACHO64"
    by (simp add: header_kind_def magic_dispatch_def minimal_macho_def)
  have e: "get_u32 Little minimal_macho 0 = MACH_MAGIC_64"
    by (simp add: get_u32_def le32_def minimal_macho_def MACH_MAGIC_64_def)
  show ?thesis
    using a b c d e header_kind_of_magic [of "[0, 1, 2, 3]"] by simp
qed

subsection \<open>Version strings\<close>

lemma digit_value_digit_char: "d < 10 \<Longrightarrow> digit_value (digit_char d) = d"
proof -
  assume "d < 10"
  then have "d \<in> {0, 1, 2, 3, 4, 5, 6, 7, 8, 9}" by auto
  then show ?thesis
    by (auto simp: digit_value_def digit_char_def)
qed

text \<open>\<open>dec\<close> is the decimal notation: reading its digits gives the number back.\<close>

lemma decimal_value_dec: "decimal_value (dec n) = n"
proof (induction n rule: dec.induct)
  case (1 n)
  show ?case
  proof (cases "n < 10")
    case True
    then show ?thesis
      by (subst dec.simps) (simp add: decimal_value_def digit_value_digit_char)
  next
    case False
    then have "decimal_value (dec (n div 10)) = n div 10"
      using 1 by simp
    then show ?thesis using False
      by (subst dec.simps) (simp add: decimal_value_def digit_value_digit_char)
  qed
qed

lemma unat_shift_right: "unat (drop_bit n (w :: 'a :: len word)) = unat w div 2 ^ n"
  by (subst unat_drop_bit_eq) (simp add: drop_bit_eq_div)

lemma unat_and_ff: "unat ((w :: u32) AND 0xff) = unat w mod 2 ^ 8"
proof -
  have "w AND 0xff = take_bit 8 w"
    by (simp add: take_bit_eq_mask mask_eq_exp_minus_1)
  then have "unat (w AND 0xff) = take_bit 8 (unat w)"
    by (simp only: unsigned_take_bit_eq)
  then show ?thesis by (simp add: take_bit_eq_mod)
qed

lemma unat_and_3ff: "unat ((w :: u64) AND 0x3ff) = unat w mod 2 ^ 10"
proof -
  have "w AND 0x3ff = take_bit 10 w"
    by (simp add: take_bit_eq_mask mask_eq_exp_minus_1)
  then have "unat (w AND 0x3ff) = take_bit 10 (unat w)"
    by (simp only: unsigned_take_bit_eq)
  then show ?thesis by (simp add: take_bit_eq_mod)
qed

text \<open>The versions of the build-version scenario of the specification (section 8).\<close>

lemma version_examples:
  "mach_lc_load_dylib_format_version 0x000E0400 = ''14.4.0''"
  "mach_lc_load_dylib_format_version 0x000F0000 = ''15.0.0''"
  "mach_lc_load_dylib_format_version 0x02080000 = ''520.0.0''"
  "mach_lc_load_dylib_format_version 0x10000 = ''1.0.0''"
  by (simp_all add: mach_lc_load_dylib_format_version_def dylib_vers_def dec.simps
      digit_char_def)

text \<open>
  C6. A 32-bit version \<open>v\<close> is rendered as \<open>X.Y.Z\<close>, where X is bits 31:16 of \<open>v\<close>,
  Y is bits 15:8 and Z is bits 7:0; a 64-bit source version \<open>w\<close> is rendered as
  \<open>A.B.C.D.E\<close>, the fields being 24, 10, 10, 10 and 10 bits wide, the most significant
  first. Each field is printed in decimal.
\<close>

theorem version_strings:
  "mach_lc_load_dylib_format_version v =
     dec (unat v div 2 ^ 16) @ ''.'' @ dec (unat v div 2 ^ 8 mod 2 ^ 8) @ ''.'' @
     dec (unat v mod 2 ^ 8) \<and>
   mach_lc_source_version_string svc =
     dec (unat (version svc) div 2 ^ 40) @ ''.'' @
     dec (unat (version svc) div 2 ^ 30 mod 2 ^ 10) @ ''.'' @
     dec (unat (version svc) div 2 ^ 20 mod 2 ^ 10) @ ''.'' @
     dec (unat (version svc) div 2 ^ 10 mod 2 ^ 10) @ ''.'' @
     dec (unat (version svc) mod 2 ^ 10) \<and>
   (\<forall>n. decimal_value (dec n) = n)"
  by (simp add: mach_lc_load_dylib_format_version_def dylib_vers_def
      mach_lc_source_version_string_def Let_def unat_shift_right unat_and_ff unat_and_3ff
      decimal_value_dec)

end
